theory Spec2Isabelle
  imports Main
begin

section \<open>The transaction helper of package transact\<close>

text \<open>
  The package has one algorithm, \<open>DoContext\<close> (transact.go, lines 12-34): begin a
  transaction, run the caller's unit of work on it, and finalize in a deferred closure.
  \<open>Do\<close> (lines 38-40) supplies \<open>context.Background()\<close>; an older file of the
  repository holds a three-argument \<open>Do\<close> with the body of \<open>DoContext\<close>.

  The embedding passes the state of the database explicitly and records every call the
  helper makes on the database handle, the transaction handle and the unit of work, in
  the order in which it makes them.
\<close>

subsection \<open>Values of the Go runtime\<close>

text \<open>
  A Go \<open>error\<close> is an interface value: \<open>nil\<close> is \<open>None\<close>, a failure is
  \<open>Some e\<close>. A panic payload is an \<open>interface{}\<close> value, which may be \<open>nil\<close> too:
  the payload is what \<open>recover()\<close> yields in a deferred call, \<open>None\<close> for
  \<open>panic(nil)\<close> (Go before 1.21, or with \<open>GODEBUG=panicnil=1\<close>).

  A call either returns its error result or panics.
\<close>

datatype ('e, 'p) outcome = Return "'e option" | Panic "'p option"

text \<open>
  Contexts as the repository builds them: \<open>context.Background()\<close> in \<open>Do\<close>,
  \<open>context.WithCancel\<close> and \<open>context.WithTimeout\<close> in the tests. The helper
  never inspects a context; it hands it to \<open>BeginTx\<close>.
\<close>

datatype Context = Background | WithCancel Context | WithTimeout nat Context

primrec Deadline :: "Context \<Rightarrow> nat option" where
  "Deadline Background = None"
| "Deadline (WithCancel parent) = Deadline parent"
| "Deadline (WithTimeout d parent) =
     (case Deadline parent of None \<Rightarrow> Some d | Some d' \<Rightarrow> Some (min d d'))"

primrec cancellable :: "Context \<Rightarrow> bool" where
  "cancellable Background = False"
| "cancellable (WithCancel parent) = True"
| "cancellable (WithTimeout d parent) = True"

subsection \<open>The collaborators: database handle, transaction handle, unit of work\<close>

text \<open>
  The three operations of \<open>database/sql\<close> that the helper calls, over a database
  state \<open>'s\<close>: \<open>db.BeginTx(ctx, nil)\<close> yields a transaction handle or an error,
  \<open>tx.Commit()\<close> and \<open>tx.Rollback()\<close> yield an error or \<open>nil\<close>. Every one of
  them may change the state. They are taken to return (a driver that panics inside
  them is outside the model).
\<close>

record ('s, 'tx, 'e) sql =
  BeginTx :: "Context \<Rightarrow> 's \<Rightarrow> ('e + 'tx) \<times> 's"
  Commit :: "'tx \<Rightarrow> 's \<Rightarrow> 'e option \<times> 's"
  Rollback :: "'tx \<Rightarrow> 's \<Rightarrow> 'e option \<times> 's"

text \<open>The unit of work \<open>func(*sql.Tx) error\<close>: it returns an error, or panics.\<close>

type_synonym ('s, 'tx, 'e, 'p) txFunc = "'tx \<Rightarrow> 's \<Rightarrow> ('e, 'p) outcome \<times> 's"

text \<open>The calls the helper makes.\<close>

datatype 'tx call = CallBeginTx Context | CalltxFunc 'tx | CallCommit 'tx | CallRollback 'tx

text \<open>
  What one call of the helper does: how it leaves (\<open>Return\<close> or \<open>Panic\<close>), the
  state of the database afterwards, and the calls it made, oldest first.
\<close>

record ('s, 'tx, 'e, 'p) run =
  result :: "('e, 'p) outcome"
  db_state :: "'s"
  calls :: "'tx call list"

subsection \<open>DoContext\<close>

text \<open>
  \<open>recover()\<close> in a deferred call: the payload of the panic under way, \<open>nil\<close> when
  the function is returning normally. A \<open>nil\<close> payload is indistinguishable from no
  panic, and calling \<open>recover()\<close> stops the panic in either case.
\<close>

definition recover :: "('e, 'p) outcome \<Rightarrow> 'p option" where
  "recover r = (case r of Return e \<Rightarrow> None | Panic p \<Rightarrow> p)"

text \<open>
  The named result \<open>err\<close> when the deferred closure runs. \<open>return txFunc(tx)\<close>
  assigns it on a normal return; when \<open>txFunc\<close> panics the assignment never happens
  and \<open>err\<close> still holds the \<open>nil\<close> that \<open>BeginTx\<close> left there.
\<close>

definition named_err :: "('e, 'p) outcome \<Rightarrow> 'e option" where
  "named_err r = (case r of Return e \<Rightarrow> e | Panic p \<Rightarrow> None)"

text \<open>
  The deferred closure (lines 18-31), run after \<open>txFunc(tx)\<close> left with \<open>r\<close> in
  state \<open>s\<close>, the calls \<open>cs\<close> made so far:
  \<^verbatim>\<open>
  if pErr := recover(); pErr != nil { tx.Rollback(); panic(pErr) }
  switch err {
  case nil: err = tx.Commit()
  default:  tx.Rollback()
  }
  \<close>
\<close>

definition deferred ::
  "('s, 'tx, 'e) sql \<Rightarrow> 'tx \<Rightarrow> ('e, 'p) outcome \<Rightarrow> 's \<Rightarrow> 'tx call list
     \<Rightarrow> ('s, 'tx, 'e, 'p) run" where
  "deferred db tx r s cs =
     (case recover r of
        Some pErr \<Rightarrow>
          (case Rollback db tx s of
             (rbErr, s') \<Rightarrow>
               \<lparr>result = Panic (Some pErr), db_state = s', calls = cs @ [CallRollback tx]\<rparr>)
      | None \<Rightarrow>
          (case named_err r of
             None \<Rightarrow>
               (case Commit db tx s of
                  (err, s') \<Rightarrow>
                    \<lparr>result = Return err, db_state = s', calls = cs @ [CallCommit tx]\<rparr>)
           | Some err \<Rightarrow>
               (case Rollback db tx s of
                  (rbErr, s') \<Rightarrow>
                    \<lparr>result = Return (Some err), db_state = s',
                     calls = cs @ [CallRollback tx]\<rparr>)))"

text \<open>
  \<open>DoContext\<close> (lines 12-34). A failing \<open>BeginTx\<close> returns its error before the
  closure is deferred.
\<close>

definition DoContext ::
  "Context \<Rightarrow> ('s, 'tx, 'e) sql \<Rightarrow> ('s, 'tx, 'e, 'p) txFunc \<Rightarrow> 's
     \<Rightarrow> ('s, 'tx, 'e, 'p) run" where
  "DoContext ctx db txFunc s =
     (case BeginTx db ctx s of
        (Inl err, s1) \<Rightarrow>
          \<lparr>result = Return (Some err), db_state = s1, calls = [CallBeginTx ctx]\<rparr>
      | (Inr tx, s1) \<Rightarrow>
          (case txFunc tx s1 of
             (r, s2) \<Rightarrow> deferred db tx r s2 [CallBeginTx ctx, CalltxFunc tx]))"

text \<open>\<open>Do\<close> (lines 38-40).\<close>

definition Do ::
  "('s, 'tx, 'e) sql \<Rightarrow> ('s, 'tx, 'e, 'p) txFunc \<Rightarrow> 's \<Rightarrow> ('s, 'tx, 'e, 'p) run" where
  "Do db txFunc s = DoContext Background db txFunc s"

text \<open>
  The three-argument \<open>Do\<close> of the older file (its lines 12-34), written out from
  its own text with its own deferred closure (its lines 18-31) in place.
\<close>

definition Do_legacy ::
  "Context \<Rightarrow> ('s, 'tx, 'e) sql \<Rightarrow> ('s, 'tx, 'e, 'p) txFunc \<Rightarrow> 's
     \<Rightarrow> ('s, 'tx, 'e, 'p) run" where
  "Do_legacy ctx db txFunc s =
     (case BeginTx db ctx s of
        (Inl err, s1) \<Rightarrow>
          \<lparr>result = Return (Some err), db_state = s1, calls = [CallBeginTx ctx]\<rparr>
      | (Inr tx, s1) \<Rightarrow>
          (case txFunc tx s1 of
             (r, s2) \<Rightarrow>
               (case recover r of
                  Some pErr \<Rightarrow>
                    (case Rollback db tx s2 of
                       (rbErr, s3) \<Rightarrow>
                         \<lparr>result = Panic (Some pErr), db_state = s3,
                          calls = [CallBeginTx ctx, CalltxFunc tx, CallRollback tx]\<rparr>)
                | None \<Rightarrow>
                    (case named_err r of
                       None \<Rightarrow>
                         (case Commit db tx s2 of
                            (err, s3) \<Rightarrow>
                              \<lparr>result = Return err, db_state = s3,
                               calls = [CallBeginTx ctx, CalltxFunc tx, CallCommit tx]\<rparr>)
                     | Some err \<Rightarrow>
                         (case Rollback db tx s2 of
                            (rbErr, s3) \<Rightarrow>
                              \<lparr>result = Return (Some err), db_state = s3,
                               calls = [CallBeginTx ctx, CalltxFunc tx, CallRollback tx]\<rparr>)))))"

subsection \<open>Observations on a run\<close>

fun is_begin :: "'tx call \<Rightarrow> bool" where
  "is_begin (CallBeginTx ctx) = True"
| "is_begin c = False"

fun is_commit :: "'tx call \<Rightarrow> bool" where
  "is_commit (CallCommit tx) = True"
| "is_commit c = False"

fun is_rollback :: "'tx call \<Rightarrow> bool" where
  "is_rollback (CallRollback tx) = True"
| "is_rollback c = False"

fun is_txFunc :: "'tx call \<Rightarrow> bool" where
  "is_txFunc (CalltxFunc tx) = True"
| "is_txFunc c = False"

definition finalizations :: "'tx call list \<Rightarrow> 'tx call list" where
  "finalizations cs = filter (\<lambda>c. is_commit c \<or> is_rollback c) cs"

subsection \<open>The database and the units of work of the test suite\<close>

text \<open>
  The tests run the helper on a \<open>sqlmock\<close> database: each operation returns what
  the test scripted for it. The state counts the transactions begun, and the count is
  the handle of the next one.
\<close>

definition sqlmock :: "string option \<Rightarrow> string option \<Rightarrow> string option \<Rightarrow> (nat, nat, string) sql" where
  "sqlmock beginErr commitErr rollbackErr =
     \<lparr>BeginTx = (\<lambda>ctx n. case beginErr of Some e \<Rightarrow> (Inl e, n) | None \<Rightarrow> (Inr n, Suc n)),
      Commit = (\<lambda>tx n. (commitErr, n)),
      Rollback = (\<lambda>tx n. (rollbackErr, n))\<rparr>"

definition AnError :: string where
  "AnError = ''assert.AnError general error for testing''"

text \<open>The three units of work of \<open>TestDoContext\<close> and \<open>TestDo\<close>.\<close>

definition txFunc_error :: "(nat, nat, string, string) txFunc" where
  "txFunc_error tx n = (Return (Some AnError), n)"

definition txFunc_panic :: "(nat, nat, string, string) txFunc" where
  "txFunc_panic tx n = (Panic (Some AnError), n)"

definition txFunc_success :: "(nat, nat, string, string) txFunc" where
  "txFunc_success tx n = (Return None, n)"

text \<open>A unit of work that is not in the tests: \<open>func(tx *sql.Tx) error { panic(nil) }\<close>.\<close>

definition txFunc_panic_nil :: "(nat, nat, string, string) txFunc" where
  "txFunc_panic_nil tx n = (Panic None, n)"

text \<open>
  A database on which every operation leaves its mark in the state, so that a run that
  skipped one is told apart from a run that made it: beginning adds 1, a commit adds 200,
  a rollback adds 100. The handle of a transaction is the state it was begun in.
\<close>

definition marking_db :: "(nat, nat, string) sql" where
  "marking_db =
     \<lparr>BeginTx = (\<lambda>ctx n. (Inr n, n + 1)),
      Commit = (\<lambda>tx n. (None, n + 200)),
      Rollback = (\<lambda>tx n. (None, n + 100))\<rparr>"

text \<open>A unit of work that writes (adds 10 to the state) and then panics.\<close>

definition txFunc_write_panic :: "(nat, nat, string, string) txFunc" where
  "txFunc_write_panic tx n = (Panic (Some AnError), n + 10)"

section \<open>Properties\<close>

subsection \<open>The shape of a run\<close>

lemma deferred_failure:
  "deferred db tx (Return (Some e)) s cs =
     \<lparr>result = Return (Some e), db_state = snd (Rollback db tx s),
      calls = cs @ [CallRollback tx]\<rparr>"
  by (simp add: deferred_def recover_def named_err_def split: prod.split)

lemma deferred_panic:
  "deferred db tx (Panic (Some p)) s cs =
     \<lparr>result = Panic (Some p), db_state = snd (Rollback db tx s),
      calls = cs @ [CallRollback tx]\<rparr>"
  by (simp add: deferred_def recover_def split: prod.split)

lemma deferred_success:
  "deferred db tx (Return None) s cs =
     \<lparr>result = Return (fst (Commit db tx s)), db_state = snd (Commit db tx s),
      calls = cs @ [CallCommit tx]\<rparr>"
  by (simp add: deferred_def recover_def named_err_def split: prod.split)

lemma deferred_panic_nil:
  "deferred db tx (Panic None) s cs =
     \<lparr>result = Return (fst (Commit db tx s)), db_state = snd (Commit db tx s),
      calls = cs @ [CallCommit tx]\<rparr>"
  by (simp add: deferred_def recover_def named_err_def split: prod.split)

lemma deferred_shape:
  "(\<exists>s'. deferred db tx r s cs =
      \<lparr>result = Return (fst (Commit db tx s)), db_state = s', calls = cs @ [CallCommit tx]\<rparr>) \<or>
   (\<exists>s'. deferred db tx r s cs =
      \<lparr>result = r, db_state = s', calls = cs @ [CallRollback tx]\<rparr>)"
proof (cases r)
  case (Return eo)
  then show ?thesis
    by (cases eo) (simp_all add: deferred_success deferred_failure)
next
  case (Panic po)
  then show ?thesis
    by (cases po) (simp_all add: deferred_panic_nil deferred_panic)
qed

lemma DoContext_begun:
  "BeginTx db ctx s = (Inr tx, s1) \<Longrightarrow> txFunc tx s1 = (r, s2) \<Longrightarrow>
   DoContext ctx db txFunc s = deferred db tx r s2 [CallBeginTx ctx, CalltxFunc tx]"
  by (simp add: DoContext_def)

lemma DoContext_not_begun:
  "BeginTx db ctx s = (Inl e, s1) \<Longrightarrow>
   DoContext ctx db txFunc s =
     \<lparr>result = Return (Some e), db_state = s1, calls = [CallBeginTx ctx]\<rparr>"
  by (simp add: DoContext_def)

lemma DoContext_begun_shape:
  assumes "BeginTx db ctx s = (Inr tx, s1)" and "txFunc tx s1 = (r, s2)"
  shows "(calls (DoContext ctx db txFunc s) = [CallBeginTx ctx, CalltxFunc tx, CallCommit tx] \<and>
          result (DoContext ctx db txFunc s) = Return (fst (Commit db tx s2))) \<or>
         (calls (DoContext ctx db txFunc s) = [CallBeginTx ctx, CalltxFunc tx, CallRollback tx] \<and>
          result (DoContext ctx db txFunc s) = r)"
proof -
  let ?cs = "[CallBeginTx ctx, CalltxFunc tx]"
  have run: "DoContext ctx db txFunc s = deferred db tx r s2 ?cs"
    using assms by (rule DoContext_begun)
  from deferred_shape [of db tx r s2 ?cs] show ?thesis
    unfolding run by auto
qed

text \<open>The equations that evaluate a run on the mock database.\<close>

lemmas mock_defs = sqlmock_def txFunc_error_def txFunc_panic_def txFunc_success_def
  txFunc_panic_nil_def DoContext_def deferred_def recover_def named_err_def finalizations_def

subsection \<open>Finalization\<close>

text \<open>
  C1. Once \<open>BeginTx\<close> has succeeded with the handle \<open>tx\<close> and the unit of work has
  left in state \<open>s2\<close>, whatever way it left (returning \<open>nil\<close>, returning an error,
  or panicking), the helper performs exactly one finalization before it leaves. Either
  it calls \<open>tx.Commit()\<close>, once and as its last call, the database is left in the state
  that this commit produces from \<open>s2\<close>, and the helper returns the commit's result; or
  it calls \<open>tx.Rollback()\<close>, once and as its last call, the database is left in the
  state that this rollback produces from \<open>s2\<close>, and the helper leaves as the unit of
  work did.
\<close>

theorem DoContext_finalizes_exactly_once:
  assumes "BeginTx db ctx s = (Inr tx, s1)"
    and "txFunc tx s1 = (r, s2)"
  shows "length (finalizations (calls (DoContext ctx db txFunc s))) = 1 \<and>
         ((calls (DoContext ctx db txFunc s) = [CallBeginTx ctx, CalltxFunc tx, CallCommit tx] \<and>
           finalizations (calls (DoContext ctx db txFunc s)) = [CallCommit tx] \<and>
           db_state (DoContext ctx db txFunc s) = snd (Commit db tx s2) \<and>
           result (DoContext ctx db txFunc s) = Return (fst (Commit db tx s2))) \<or>
          (calls (DoContext ctx db txFunc s) = [CallBeginTx ctx, CalltxFunc tx, CallRollback tx] \<and>
           finalizations (calls (DoContext ctx db txFunc s)) = [CallRollback tx] \<and>
           db_state (DoContext ctx db txFunc s) = snd (Rollback db tx s2) \<and>
           result (DoContext ctx db txFunc s) = r))"
proof -
  let ?cs = "[CallBeginTx ctx, CalltxFunc tx]"
  have run: "DoContext ctx db txFunc s = deferred db tx r s2 ?cs"
    using assms by (rule DoContext_begun)
  show ?thesis
  proof (cases r)
    case (Return eo)
    show ?thesis
    proof (cases eo)
      case None
      with Return show ?thesis
        unfolding run by (simp add: deferred_success finalizations_def)
    next
      case (Some e)
      with Return show ?thesis
        unfolding run by (simp add: deferred_failure finalizations_def)
    qed
  next
    case (Panic po)
    show ?thesis
    proof (cases po)
      case None
      with Panic show ?thesis
        unfolding run by (simp add: deferred_panic_nil finalizations_def)
    next
      case (Some p)
      with Panic show ?thesis
        unfolding run by (simp add: deferred_panic finalizations_def)
    qed
  qed
qed

theorem DoContext_finalizes_exactly_once_witness:
  "BeginTx marking_db Background 0 = (Inr 0, 1) \<and>
   txFunc_write_panic 0 1 = (Panic (Some AnError), 11) \<and>
   length (finalizations (calls (DoContext Background marking_db txFunc_write_panic 0))) = 1 \<and>
   calls (DoContext Background marking_db txFunc_write_panic 0)
     = [CallBeginTx Background, CalltxFunc 0, CallRollback 0] \<and>
   finalizations (calls (DoContext Background marking_db txFunc_write_panic 0))
     = [CallRollback 0] \<and>
   db_state (DoContext Background marking_db txFunc_write_panic 0) = 111 \<and>
   result (DoContext Background marking_db txFunc_write_panic 0) = Panic (Some AnError)"
proof -
  have b: "BeginTx marking_db Background 0 = (Inr 0, 1)"
    by (simp add: marking_db_def)
  have w: "txFunc_write_panic 0 1 = (Panic (Some AnError), 11)"
    by (simp add: txFunc_write_panic_def)
  show ?thesis
    using b w DoContext_finalizes_exactly_once [where txFunc = txFunc_write_panic, OF b w]
    by (simp add: mock_defs marking_db_def txFunc_write_panic_def)
qed

subsection \<open>Success and begin failure\<close>

text \<open>
  C4. When the unit of work returns \<open>nil\<close>, the helper has begun the transaction,
  commits it, makes no rollback call, and returns the result of \<open>tx.Commit()\<close>:
  \<open>nil\<close> when the commit succeeds, the commit's error when it fails.
\<close>

theorem DoContext_success_commits:
  assumes "BeginTx db ctx s = (Inr tx, s1)"
    and "txFunc tx s1 = (Return None, s2)"
  shows "calls (DoContext ctx db txFunc s) = [CallBeginTx ctx, CalltxFunc tx, CallCommit tx] \<and>
         filter is_rollback (calls (DoContext ctx db txFunc s)) = [] \<and>
         result (DoContext ctx db txFunc s) = Return (fst (Commit db tx s2)) \<and>
         db_state (DoContext ctx db txFunc s) = snd (Commit db tx s2)"
  using assms by (simp add: DoContext_def deferred_success)

theorem DoContext_success_commits_witness:
  "BeginTx (sqlmock None (Some ''commit failed'') None) Background 0 = (Inr 0, 1) \<and>
   txFunc_success 0 1 = (Return None, 1) \<and>
   calls (DoContext Background (sqlmock None (Some ''commit failed'') None) txFunc_success 0)
     = [CallBeginTx Background, CalltxFunc 0, CallCommit 0] \<and>
   result (DoContext Background (sqlmock None (Some ''commit failed'') None) txFunc_success 0)
     = Return (Some ''commit failed'')"
proof -
  have b: "BeginTx (sqlmock None (Some ''commit failed'') None) Background 0 = (Inr 0, 1)"
    by (simp add: sqlmock_def)
  have w: "txFunc_success 0 1 = (Return None, 1)"
    by (simp add: txFunc_success_def)
  show ?thesis
    using b w DoContext_success_commits [where txFunc = txFunc_success, OF b w]
    by (simp add: sqlmock_def)
qed

text \<open>
  C5. When \<open>BeginTx\<close> fails with \<open>e\<close>, the helper returns \<open>e\<close> itself at once:
  \<open>BeginTx\<close> is its only call, so the unit of work is not run and neither commit nor
  rollback is called.
\<close>

theorem DoContext_begin_failure:
  assumes "BeginTx db ctx s = (Inl e, s1)"
  shows "result (DoContext ctx db txFunc s) = Return (Some e) \<and>
         calls (DoContext ctx db txFunc s) = [CallBeginTx ctx] \<and>
         filter is_txFunc (calls (DoContext ctx db txFunc s)) = [] \<and>
         finalizations (calls (DoContext ctx db txFunc s)) = [] \<and>
         db_state (DoContext ctx db txFunc s) = s1"
  by (simp add: DoContext_not_begun [OF assms] finalizations_def)

theorem DoContext_begin_failure_witness:
  "BeginTx (sqlmock (Some ''begin failed'') None None) Background 0 = (Inl ''begin failed'', 0) \<and>
   result (DoContext Background (sqlmock (Some ''begin failed'') None None) txFunc_success 0)
     = Return (Some ''begin failed'') \<and>
   calls (DoContext Background (sqlmock (Some ''begin failed'') None None) txFunc_success 0)
     = [CallBeginTx Background]"
proof -
  have b: "BeginTx (sqlmock (Some ''begin failed'') None None) Background 0
             = (Inl ''begin failed'', 0)"
    by (simp add: sqlmock_def)
  show ?thesis
    using b DoContext_begin_failure [OF b, of txFunc_success] by simp
qed

subsection \<open>Failures and rollback\<close>

text \<open>
  C2. When the unit of work returns the non-nil error \<open>e\<close>, the helper has begun the
  transaction, rolls it back, makes no commit call, and returns \<open>e\<close> itself.
\<close>

theorem DoContext_failure_rolls_back:
  assumes "BeginTx db ctx s = (Inr tx, s1)"
    and "txFunc tx s1 = (Return (Some e), s2)"
  shows "result (DoContext ctx db txFunc s) = Return (Some e) \<and>
         calls (DoContext ctx db txFunc s) = [CallBeginTx ctx, CalltxFunc tx, CallRollback tx] \<and>
         filter is_commit (calls (DoContext ctx db txFunc s)) = [] \<and>
         db_state (DoContext ctx db txFunc s) = snd (Rollback db tx s2)"
  using assms by (simp add: DoContext_def deferred_failure)

theorem DoContext_failure_rolls_back_witness:
  "BeginTx (sqlmock None None None) (WithCancel Background) 0 = (Inr 0, 1) \<and>
   txFunc_error 0 1 = (Return (Some AnError), 1) \<and>
   result (DoContext (WithCancel Background) (sqlmock None None None) txFunc_error 0)
     = Return (Some AnError) \<and>
   calls (DoContext (WithCancel Background) (sqlmock None None None) txFunc_error 0)
     = [CallBeginTx (WithCancel Background), CalltxFunc 0, CallRollback 0]"
proof -
  have b: "BeginTx (sqlmock None None None) (WithCancel Background) 0 = (Inr 0, 1)"
    by (simp add: sqlmock_def)
  have w: "txFunc_error 0 1 = (Return (Some AnError), 1)"
    by (simp add: txFunc_error_def)
  show ?thesis
    using b w DoContext_failure_rolls_back [where txFunc = txFunc_error, OF b w] by simp
qed

text \<open>
  C6. On every path that rolls back, the helper leaves exactly as the unit of work did
  (the same returned error, the same panic payload), and it does so for any behaviour
  \<open>rb\<close> put in the place of \<open>tx.Rollback()\<close>, failing or not: what the rollback
  returns is dropped.
\<close>

theorem rollback_failure_discarded:
  assumes "BeginTx db ctx s = (Inr tx, s1)"
    and "txFunc tx s1 = (r, s2)"
    and "CallRollback tx \<in> set (calls (DoContext ctx db txFunc s))"
  shows "result (DoContext ctx db txFunc s) = r \<and>
         result (DoContext ctx (db\<lparr>Rollback := rb\<rparr>) txFunc s) = r \<and>
         ((\<exists>e. r = Return (Some e)) \<or> (\<exists>p. r = Panic (Some p)))"
proof (cases r)
  case (Return eo)
  show ?thesis
  proof (cases eo)
    case None
    with Return assms show ?thesis
      by (simp add: DoContext_def deferred_success)
  next
    case (Some e)
    with Return assms show ?thesis
      by (simp add: DoContext_def deferred_failure)
  qed
next
  case (Panic po)
  show ?thesis
  proof (cases po)
    case None
    with Panic assms show ?thesis
      by (simp add: DoContext_def deferred_panic_nil)
  next
    case (Some p)
    with Panic assms show ?thesis
      by (simp add: DoContext_def deferred_panic)
  qed
qed

theorem rollback_failure_discarded_witness:
  "BeginTx (sqlmock None None None) Background 0 = (Inr 0, 1) \<and>
   txFunc_error 0 1 = (Return (Some AnError), 1) \<and>
   CallRollback 0 \<in> set (calls (DoContext Background (sqlmock None None None) txFunc_error 0)) \<and>
   result (DoContext Background (sqlmock None None None) txFunc_error 0)
     = Return (Some AnError) \<and>
   result (DoContext Background
       ((sqlmock None None None)\<lparr>Rollback := \<lambda>tx n. (Some ''rollback failed'', n)\<rparr>)
       txFunc_error 0)
     = Return (Some AnError)"
proof -
  have b: "BeginTx (sqlmock None None None) Background 0 = (Inr 0, 1)"
    by (simp add: sqlmock_def)
  have w: "txFunc_error 0 1 = (Return (Some AnError), 1)"
    by (simp add: txFunc_error_def)
  have c: "CallRollback 0
             \<in> set (calls (DoContext Background (sqlmock None None None) txFunc_error 0))"
    by (simp add: mock_defs)
  show ?thesis
    using b w c
      rollback_failure_discarded [where txFunc = txFunc_error
        and rb = "\<lambda>tx n. (Some ''rollback failed'', n)", OF b w c]
    by simp
qed

subsection \<open>Panics\<close>

text \<open>
  A panic with a payload other than \<open>nil\<close> is rolled back and raised again with the
  payload it came with.
\<close>

lemma DoContext_panic_rolls_back:
  assumes "BeginTx db ctx s = (Inr tx, s1)"
    and "txFunc tx s1 = (Panic (Some p), s2)"
  shows "result (DoContext ctx db txFunc s) = Panic (Some p) \<and>
         calls (DoContext ctx db txFunc s) = [CallBeginTx ctx, CalltxFunc tx, CallRollback tx] \<and>
         filter is_commit (calls (DoContext ctx db txFunc s)) = [] \<and>
         db_state (DoContext ctx db txFunc s) = snd (Rollback db tx s2)"
  using assms by (simp add: DoContext_def deferred_panic)

text \<open>
  C9. When the unit of work panics with a \<open>nil\<close> payload, \<open>recover()\<close> yields
  \<open>nil\<close>, the panic branch of the closure is skipped, \<open>err\<close> is still \<open>nil\<close>, and so
  the transaction is committed, no rollback is made, and the helper returns what
  \<open>tx.Commit()\<close> returned.
\<close>

theorem DoContext_nil_panic_commits:
  assumes "BeginTx db ctx s = (Inr tx, s1)"
    and "txFunc tx s1 = (Panic None, s2)"
  shows "recover (fst (txFunc tx s1)) = None \<and>
         calls (DoContext ctx db txFunc s) = [CallBeginTx ctx, CalltxFunc tx, CallCommit tx] \<and>
         filter is_rollback (calls (DoContext ctx db txFunc s)) = [] \<and>
         result (DoContext ctx db txFunc s) = Return (fst (Commit db tx s2)) \<and>
         db_state (DoContext ctx db txFunc s) = snd (Commit db tx s2)"
  using assms by (simp add: DoContext_def deferred_panic_nil recover_def)

theorem DoContext_nil_panic_commits_witness:
  "BeginTx (sqlmock None None None) Background 0 = (Inr 0, 1) \<and>
   txFunc_panic_nil 0 1 = (Panic None, 1) \<and>
   calls (DoContext Background (sqlmock None None None) txFunc_panic_nil 0)
     = [CallBeginTx Background, CalltxFunc 0, CallCommit 0] \<and>
   result (DoContext Background (sqlmock None None None) txFunc_panic_nil 0) = Return None"
proof -
  have b: "BeginTx (sqlmock None None None) Background 0 = (Inr 0, 1)"
    by (simp add: sqlmock_def)
  have w: "txFunc_panic_nil 0 1 = (Panic None, 1)"
    by (simp add: txFunc_panic_nil_def)
  show ?thesis
    using b w DoContext_nil_panic_commits [where txFunc = txFunc_panic_nil, OF b w]
    by (simp add: sqlmock_def)
qed

text \<open>
  C3. A unit of work that panics should be rolled back and its panic raised again. On the
  mock database, the unit of work \<open>func(tx *sql.Tx) error { panic(nil) }\<close> is
  committed instead, and the helper returns \<open>nil\<close>: the panic is lost.
\<close>

theorem sqlmock_panic_nil_is_committed:
  "DoContext Background (sqlmock None None None) txFunc_panic_nil 0 =
     \<lparr>result = Return None, db_state = 1,
      calls = [CallBeginTx Background, CalltxFunc 0, CallCommit 0]\<rparr>"
  by (simp add: mock_defs)

subsection \<open>No retries\<close>

lemma counts_begin_only:
  "cs = [CallBeginTx ctx] \<Longrightarrow>
   length (filter is_begin cs) = 1 \<and> length (filter is_commit cs) \<le> 1 \<and>
   length (filter is_rollback cs) \<le> 1 \<and> length (finalizations cs) \<le> 1"
  by (simp add: finalizations_def)

lemma counts_commit:
  "cs = [CallBeginTx ctx, CalltxFunc tx, CallCommit tx] \<Longrightarrow>
   length (filter is_begin cs) = 1 \<and> length (filter is_commit cs) \<le> 1 \<and>
   length (filter is_rollback cs) \<le> 1 \<and> length (finalizations cs) \<le> 1"
  by (simp add: finalizations_def)

lemma counts_rollback:
  "cs = [CallBeginTx ctx, CalltxFunc tx, CallRollback tx] \<Longrightarrow>
   length (filter is_begin cs) = 1 \<and> length (filter is_commit cs) \<le> 1 \<and>
   length (filter is_rollback cs) \<le> 1 \<and> length (finalizations cs) \<le> 1"
  by (simp add: finalizations_def)

lemma DoContext_counts:
  "length (filter is_begin (calls (DoContext ctx db txFunc s))) = 1 \<and>
   length (filter is_commit (calls (DoContext ctx db txFunc s))) \<le> 1 \<and>
   length (filter is_rollback (calls (DoContext ctx db txFunc s))) \<le> 1 \<and>
   length (finalizations (calls (DoContext ctx db txFunc s))) \<le> 1"
proof (cases "BeginTx db ctx s")
  case (Pair b s1)
  show ?thesis
  proof (cases b)
    case (Inl e)
    with Pair have "calls (DoContext ctx db txFunc s) = [CallBeginTx ctx]"
      by (simp add: DoContext_def)
    then show ?thesis by (rule counts_begin_only)
  next
    case (Inr tx)
    obtain r s2 where w: "txFunc tx s1 = (r, s2)"
      by (cases "txFunc tx s1")
    from Pair Inr have b: "BeginTx db ctx s = (Inr tx, s1)" by simp
    from DoContext_begun_shape [where txFunc = txFunc, OF b w] show ?thesis
      by (auto dest: counts_commit counts_rollback)
  qed
qed

text \<open>
  C8. In every run \<open>BeginTx\<close> is called once, \<open>tx.Commit()\<close> and \<open>tx.Rollback()\<close>
  at most once each and at most one of the two. A failing \<open>BeginTx\<close> is the last call
  of the run; a failing commit is the last call of the run, with no rollback after it,
  and its error is returned; a failing rollback is the last call of the run.
\<close>

theorem DoContext_no_retry:
  "length (filter is_begin (calls (DoContext ctx db txFunc s))) = 1 \<and>
   length (filter is_commit (calls (DoContext ctx db txFunc s))) \<le> 1 \<and>
   length (filter is_rollback (calls (DoContext ctx db txFunc s))) \<le> 1 \<and>
   length (finalizations (calls (DoContext ctx db txFunc s))) \<le> 1 \<and>
   (\<forall>e s1. BeginTx db ctx s = (Inl e, s1) \<longrightarrow>
      calls (DoContext ctx db txFunc s) = [CallBeginTx ctx]) \<and>
   (\<forall>tx s1 r s2 e.
      BeginTx db ctx s = (Inr tx, s1) \<and> txFunc tx s1 = (r, s2) \<and>
      CallCommit tx \<in> set (calls (DoContext ctx db txFunc s)) \<and>
      fst (Commit db tx s2) = Some e \<longrightarrow>
        calls (DoContext ctx db txFunc s) = [CallBeginTx ctx, CalltxFunc tx, CallCommit tx] \<and>
        result (DoContext ctx db txFunc s) = Return (Some e)) \<and>
   (\<forall>tx s1 r s2 e.
      BeginTx db ctx s = (Inr tx, s1) \<and> txFunc tx s1 = (r, s2) \<and>
      CallRollback tx \<in> set (calls (DoContext ctx db txFunc s)) \<and>
      fst (Rollback db tx s2) = Some e \<longrightarrow>
        calls (DoContext ctx db txFunc s) = [CallBeginTx ctx, CalltxFunc tx, CallRollback tx] \<and>
        result (DoContext ctx db txFunc s) = r)"
proof -
  have begin_fails: "\<forall>e s1. BeginTx db ctx s = (Inl e, s1) \<longrightarrow>
      calls (DoContext ctx db txFunc s) = [CallBeginTx ctx]"
    by (simp add: DoContext_def)
  have commit_fails: "\<forall>tx s1 r s2 e.
      BeginTx db ctx s = (Inr tx, s1) \<and> txFunc tx s1 = (r, s2) \<and>
      CallCommit tx \<in> set (calls (DoContext ctx db txFunc s)) \<and>
      fst (Commit db tx s2) = Some e \<longrightarrow>
        calls (DoContext ctx db txFunc s) = [CallBeginTx ctx, CalltxFunc tx, CallCommit tx] \<and>
        result (DoContext ctx db txFunc s) = Return (Some e)"
  proof (intro allI impI, elim conjE)
    fix tx s1 r s2 e
    assume b: "BeginTx db ctx s = (Inr tx, s1)" and w: "txFunc tx s1 = (r, s2)"
      and c: "CallCommit tx \<in> set (calls (DoContext ctx db txFunc s))"
      and f: "fst (Commit db tx s2) = Some e"
    from DoContext_begun_shape [where txFunc = txFunc, OF b w] c f
    show "calls (DoContext ctx db txFunc s) = [CallBeginTx ctx, CalltxFunc tx, CallCommit tx] \<and>
          result (DoContext ctx db txFunc s) = Return (Some e)"
      by auto
  qed
  have rollback_fails: "\<forall>tx s1 r s2 e.
      BeginTx db ctx s = (Inr tx, s1) \<and> txFunc tx s1 = (r, s2) \<and>
      CallRollback tx \<in> set (calls (DoContext ctx db txFunc s)) \<and>
      fst (Rollback db tx s2) = Some e \<longrightarrow>
        calls (DoContext ctx db txFunc s) = [CallBeginTx ctx, CalltxFunc tx, CallRollback tx] \<and>
        result (DoContext ctx db txFunc s) = r"
  proof (intro allI impI, elim conjE)
    fix tx s1 r s2 e
    assume b: "BeginTx db ctx s = (Inr tx, s1)" and w: "txFunc tx s1 = (r, s2)"
      and c: "CallRollback tx \<in> set (calls (DoContext ctx db txFunc s))"
    from DoContext_begun_shape [where txFunc = txFunc, OF b w] c
    show "calls (DoContext ctx db txFunc s) = [CallBeginTx ctx, CalltxFunc tx, CallRollback tx] \<and>
          result (DoContext ctx db txFunc s) = r"
      by auto
  qed
  from DoContext_counts [of ctx db txFunc s] begin_fails commit_fails rollback_fails
  show ?thesis by (intro conjI) (elim conjE, assumption)+
qed

theorem DoContext_no_retry_witness:
  "(BeginTx (sqlmock (Some ''begin failed'') None None) Background 0
      = (Inl ''begin failed'', 0) \<and>
    calls (DoContext Background (sqlmock (Some ''begin failed'') None None) txFunc_success 0)
      = [CallBeginTx Background]) \<and>
   (BeginTx (sqlmock None (Some ''commit failed'') None) Background 0 = (Inr 0, 1) \<and>
    txFunc_success 0 1 = (Return None, 1) \<and>
    CallCommit 0 \<in> set (calls
      (DoContext Background (sqlmock None (Some ''commit failed'') None) txFunc_success 0)) \<and>
    fst (Commit (sqlmock None (Some ''commit failed'') None) 0 1) = Some ''commit failed'' \<and>
    calls (DoContext Background (sqlmock None (Some ''commit failed'') None) txFunc_success 0)
      = [CallBeginTx Background, CalltxFunc 0, CallCommit 0] \<and>
    result (DoContext Background (sqlmock None (Some ''commit failed'') None) txFunc_success 0)
      = Return (Some ''commit failed'')) \<and>
   (BeginTx (sqlmock None None (Some ''rollback failed'')) Background 0 = (Inr 0, 1) \<and>
    txFunc_error 0 1 = (Return (Some AnError), 1) \<and>
    CallRollback 0 \<in> set (calls
      (DoContext Background (sqlmock None None (Some ''rollback failed'')) txFunc_error 0)) \<and>
    fst (Rollback (sqlmock None None (Some ''rollback failed'')) 0 1)
      = Some ''rollback failed'' \<and>
    calls (DoContext Background (sqlmock None None (Some ''rollback failed'')) txFunc_error 0)
      = [CallBeginTx Background, CalltxFunc 0, CallRollback 0] \<and>
    result (DoContext Background (sqlmock None None (Some ''rollback failed'')) txFunc_error 0)
      = Return (Some AnError))"
proof -
  let ?B = "sqlmock (Some ''begin failed'') None None"
  let ?C = "sqlmock None (Some ''commit failed'') None"
  let ?R = "sqlmock None None (Some ''rollback failed'')"
  have b1: "BeginTx ?B Background 0 = (Inl ''begin failed'', 0)"
    by (simp add: sqlmock_def)
  have b2: "BeginTx ?C Background 0 = (Inr 0, 1)"
    by (simp add: sqlmock_def)
  have w2: "txFunc_success 0 1 = (Return None, 1)"
    by (simp add: txFunc_success_def)
  have c2: "CallCommit 0 \<in> set (calls (DoContext Background ?C txFunc_success 0))"
    by (simp add: mock_defs)
  have f2: "fst (Commit ?C 0 1) = Some ''commit failed''"
    by (simp add: sqlmock_def)
  have b3: "BeginTx ?R Background 0 = (Inr 0, 1)"
    by (simp add: sqlmock_def)
  have w3: "txFunc_error 0 1 = (Return (Some AnError), 1)"
    by (simp add: txFunc_error_def)
  have c3: "CallRollback 0 \<in> set (calls (DoContext Background ?R txFunc_error 0))"
    by (simp add: mock_defs)
  have f3: "fst (Rollback ?R 0 1) = Some ''rollback failed''"
    by (simp add: sqlmock_def)
  from DoContext_no_retry [of Background ?B txFunc_success 0] b1
  have g1: "calls (DoContext Background ?B txFunc_success 0) = [CallBeginTx Background]"
    by blast
  from DoContext_no_retry [of Background ?C txFunc_success 0] b2 w2 c2 f2
  have g2: "calls (DoContext Background ?C txFunc_success 0)
              = [CallBeginTx Background, CalltxFunc 0, CallCommit 0] \<and>
            result (DoContext Background ?C txFunc_success 0) = Return (Some ''commit failed'')"
    by blast
  from DoContext_no_retry [of Background ?R txFunc_error 0] b3 w3 c3 f3
  have g3: "calls (DoContext Background ?R txFunc_error 0)
              = [CallBeginTx Background, CalltxFunc 0, CallRollback 0] \<and>
            result (DoContext Background ?R txFunc_error 0) = Return (Some AnError)"
    by blast
  from b1 g1 b2 w2 c2 f2 g2 b3 w3 c3 f3 g3 show ?thesis
    by (intro conjI) (elim conjE, assumption)+
qed

subsection \<open>The other entry points\<close>

text \<open>
  C7. \<open>Do(db, txFunc)\<close> is \<open>DoContext(context.Background(), db, txFunc)\<close>: the same
  calls, the same state of the database, the same error or panic; and the background
  context has no deadline and cannot be cancelled.
\<close>

theorem Do_eq_DoContext_Background:
  "Do db txFunc s = DoContext Background db txFunc s \<and>
   Deadline Background = None \<and> \<not> cancellable Background"
  by (simp add: Do_def)

text \<open>
  C10. The three-argument \<open>Do(ctx, db, txFunc)\<close> of the older file and
  \<open>DoContext(ctx, db, txFunc)\<close> make the same calls in the same order, leave the
  database in the same state, and return the same error or raise the same panic.
\<close>

theorem Do_legacy_eq_DoContext:
  "Do_legacy ctx db txFunc s = DoContext ctx db txFunc s"
  by (simp add: Do_legacy_def DoContext_def deferred_def split: prod.split sum.split option.split)

end
